theory Spec2Isabelle
  imports Complex_Main "HOL-Library.Product_Lexorder"
begin

section \<open>Data model of the emissions application\<close>

text \<open>
  The embedding follows \<^verbatim>\<open>emissions/models.py\<close>, \<open>emissions/views.py\<close> and
  \<open>emissions/signals.py\<close>. Years, quantities and lifetimes are Python integers
  (\<open>int\<close>). Decimal quantities are read as exact rational numbers (\<open>rat\<close>): the
  rounding of the 28-digit decimal context is not modelled. The paths that compute
  in binary floating point (\<^verbatim>\<open>calculate_total_reduction\<close>, \<^verbatim>\<open>apply_modifications\<close>) are
  not embedded. Exceptions are values of \<open>error\<close>.
  A nullable column is an \<open>option\<close>; Python's truth test of such a value
  (\<^verbatim>\<open>if self.year\<close>) is false for \<open>None\<close> and for \<open>0\<close>.
\<close>

datatype error = TypeError | ValueError | DivisionByZero | InvalidOperation
  | ValidationError

record source =
  s_id :: int
  s_report :: int
  s_emission_factor :: rat
  s_value :: rat
  s_quantity :: int
  s_lifetime :: int
  s_acquisition_year :: int
  s_year :: "int option"

record modification =
  m_id :: int
  m_source :: source
  m_modification_type :: string
  m_value :: rat
  m_order :: int
  m_start_year :: int
  m_end_year :: "int option"
  m_is_progressive :: bool
  m_target_value :: "rat option"
  m_calculation_year :: int

text \<open>Python's truth value of an optional integer.\<close>

definition truthy :: "int option \<Rightarrow> bool" where
  "truthy x = (case x of None \<Rightarrow> False | Some v \<Rightarrow> v \<noteq> 0)"

section \<open>Source emission calculator\<close>

text \<open>\<^verbatim>\<open>Source.annual_emission\<close>: emission factor times value times quantity.\<close>

definition annual_emission :: "source \<Rightarrow> rat" where
  "annual_emission s = s_emission_factor s * s_value s * of_int (s_quantity s)"

text \<open>
  \<^verbatim>\<open>Source.calculate_emission_for_year\<close>: the year pin is tested first (by truth
  value), then the lifetime window.
\<close>

definition calculate_emission_for_year :: "source \<Rightarrow> int \<Rightarrow> rat" where
  "calculate_emission_for_year s y =
     (if truthy (s_year s) \<and> s_year s \<noteq> Some y then 0
      else if y < s_acquisition_year s \<or> y \<ge> s_acquisition_year s + s_lifetime s then 0
      else annual_emission s)"

text \<open>
  The test of the lifetime window alone, as \<^verbatim>\<open>project_emissions\<close> and the masks of
  the vectorised paths make it: the year pin is not read.
\<close>

definition active :: "source \<Rightarrow> int \<Rightarrow> bool" where
  "active s y = (s_acquisition_year s \<le> y \<and> y < s_acquisition_year s + s_lifetime s)"

section \<open>Modification pipeline\<close>

text \<open>
  Division of decimals: a non-zero dividend over zero raises \<open>DivisionByZero\<close>,
  zero over zero raises \<open>InvalidOperation\<close>.
\<close>

definition dec_div :: "rat \<Rightarrow> rat \<Rightarrow> error + rat" where
  "dec_div a b =
     (if b = 0 then (if a = 0 then Inl InvalidOperation else Inl DivisionByZero)
      else Inr (a / b))"

text \<open>
  The progress of a progressive modification in a year, as both
  \<^verbatim>\<open>calculate_modified_emission\<close> and \<^verbatim>\<open>project_emissions\<close> compute it:
  \<^verbatim>\<open>total_years = end_year - start_year + 1\<close> (a \<open>TypeError\<close> without an end year),
  \<^verbatim>\<open>years_passed = min(year - start_year + 1, total_years)\<close>,
  \<^verbatim>\<open>progress = years_passed / total_years\<close>.
\<close>

definition progress :: "int \<Rightarrow> int option \<Rightarrow> int \<Rightarrow> error + rat" where
  "progress start_year end_year y =
     (case end_year of
        None \<Rightarrow> Inl TypeError
      | Some e \<Rightarrow>
          (let total_years = e - start_year + 1;
               years_passed = min (y - start_year + 1) total_years
           in dec_div (of_int years_passed) (of_int total_years)))"

text \<open>
  The interpolated usage value
  \<^verbatim>\<open>source.value + (target_value - source.value) * progress\<close>.
\<close>

definition current_value :: "rat \<Rightarrow> rat \<Rightarrow> rat \<Rightarrow> rat" where
  "current_value v target p = v + (target - v) * p"

text \<open>
  \<^verbatim>\<open>Modification.calculate_modified_emission(base_emission=None)\<close>. The year is
  the modification's own \<^verbatim>\<open>calculation_year\<close>; there is no test of the window.
\<close>

definition calculate_modified_emission :: "modification \<Rightarrow> rat option \<Rightarrow> error + rat" where
  "calculate_modified_emission m base_emission =
     (let base = (case base_emission of
                    None \<Rightarrow> calculate_emission_for_year (m_source m) (m_calculation_year m)
                  | Some b \<Rightarrow> b)
      in if m_modification_type m = ''VALUE'' then
           (if m_is_progressive m then
              (case progress (m_start_year m) (m_end_year m) (m_calculation_year m) of
                 Inl e \<Rightarrow> Inl e
               | Inr p \<Rightarrow>
                   (case m_target_value m of
                      None \<Rightarrow> Inl TypeError
                    | Some t \<Rightarrow>
                        (case dec_div (current_value (s_value (m_source m)) t p)
                                (s_value (m_source m)) of
                           Inl e \<Rightarrow> Inl e
                         | Inr r \<Rightarrow> Inr (base * r))))
            else Inr (base * m_value m))
         else if m_modification_type m = ''EF'' then
           (case dec_div base (s_emission_factor (m_source m)) of
              Inl e \<Rightarrow> Inl e
            | Inr r \<Rightarrow> Inr (r * m_value m))
         else Inl ValidationError)"






section \<open>Projection engine\<close>

text \<open>
  The inner loop of \<^verbatim>\<open>project_emissions\<close> for one year: every modification whose
  window holds the year either overwrites the running \<^verbatim>\<open>modified_value\<close>
  (progressive) or multiplies it on its start year (any other modification; the
  modification type is not read). A missing target value fails in the conversion
  \<^verbatim>\<open>Decimal(str(None))\<close>.
\<close>

definition in_window :: "modification \<Rightarrow> int \<Rightarrow> bool" where
  "in_window m y =
     (m_start_year m \<le> y \<and> (case m_end_year m of None \<Rightarrow> True | Some e \<Rightarrow> y \<le> e))"

fun project_emissions_mods ::
  "source \<Rightarrow> int \<Rightarrow> modification list \<Rightarrow> rat \<Rightarrow> error + rat" where
  "project_emissions_mods src y [] modified_value = Inr modified_value"
| "project_emissions_mods src y (m # ms) modified_value =
     (if in_window m y then
        (if m_is_progressive m then
           (case progress (m_start_year m) (m_end_year m) y of
              Inl e \<Rightarrow> Inl e
            | Inr p \<Rightarrow>
                (case m_target_value m of
                   None \<Rightarrow> Inl InvalidOperation
                 | Some t \<Rightarrow>
                     project_emissions_mods src y ms (current_value (s_value src) t p)))
         else if y = m_start_year m then
           project_emissions_mods src y ms (modified_value * m_value m)
         else project_emissions_mods src y ms modified_value)
      else project_emissions_mods src y ms modified_value)"

text \<open>
  The loop over the years. The dictionary of results is an association list in
  insertion order, keyed by the year (the source keys it by the year's decimal
  string).
\<close>

fun project_emissions_years ::
  "source \<Rightarrow> modification list \<Rightarrow> int list \<Rightarrow> rat \<Rightarrow> (int \<times> rat) list
     \<Rightarrow> error + (int \<times> rat) list" where
  "project_emissions_years src mods [] modified_value emissions = Inr emissions"
| "project_emissions_years src mods (y # ys) modified_value emissions =
     (if y < s_acquisition_year src \<or> y \<ge> s_acquisition_year src + s_lifetime src then
        project_emissions_years src mods ys modified_value (emissions @ [(y, 0)])
      else
        (case project_emissions_mods src y mods modified_value of
           Inl e \<Rightarrow> Inl e
         | Inr mv \<Rightarrow>
             (case dec_div (s_emission_factor src * mv * of_int (s_quantity src))
                     (of_int (s_lifetime src)) of
                Inl e \<Rightarrow> Inl e
              | Inr modified_emission \<Rightarrow>
                  project_emissions_years src mods ys mv
                    (emissions @ [(y, modified_emission)]))))"

definition project_emissions ::
  "source \<Rightarrow> modification list \<Rightarrow> int \<Rightarrow> int \<Rightarrow> error + (int \<times> rat) list" where
  "project_emissions src mods start_year end_year =
     project_emissions_years src mods [start_year..end_year] (s_value src) []"

text \<open>
  \<^verbatim>\<open>ProjectionViewSet.project_modifications\<close>. A value of the request body is
  null (also what \<^verbatim>\<open>get\<close> returns for a missing key), an integer or a string; its
  truth value is false for null, for the number 0 and for the empty string.
  Python's \<^verbatim>\<open>int\<close> on a string is the parameter \<open>int_of_string\<close>, which is \<open>None\<close>
  where \<^verbatim>\<open>int\<close> raises a \<open>ValueError\<close>; \<^verbatim>\<open>int\<close> of null is a \<open>TypeError\<close>.
\<close>

datatype json = JNull | JInt int | JStr string

fun truthy_json :: "json \<Rightarrow> bool" where
  "truthy_json JNull = False"
| "truthy_json (JInt n) = (n \<noteq> 0)"
| "truthy_json (JStr s) = (s \<noteq> [])"

fun py_int :: "(string \<Rightarrow> int option) \<Rightarrow> json \<Rightarrow> error + int" where
  "py_int int_of_string JNull = Inl TypeError"
| "py_int int_of_string (JInt n) = Inr n"
| "py_int int_of_string (JStr s) =
     (case int_of_string s of None \<Rightarrow> Inl ValueError | Some n \<Rightarrow> Inr n)"

text \<open>
  The request gives the source id, the modification ids, the start year (the
  current year when the key is absent) and the requested end year. The source
  and the modifications are looked up in the stored rows; the modifications are
  ordered by start year and order. A \<open>ValueError\<close> becomes a 400 response, any
  other exception a 500 response, a missing source a 404 response.
\<close>

record projection_request =
  rq_source_id :: json
  rq_modification_ids :: "int list"
  rq_start_year :: "json option"
  rq_end_year :: json

record projection_result =
  rs_projections :: "(int \<times> rat) list"
  rs_start_year :: int
  rs_end_year :: int
  rs_max_allowed_end_year :: int

datatype response = Ok projection_result | Failed int

definition failure :: "error \<Rightarrow> response" where
  "failure e = (if e = ValueError then Failed 400 else Failed 500)"

definition project_modifications ::
  "(string \<Rightarrow> int option) \<Rightarrow> source list \<Rightarrow> modification list \<Rightarrow> int
     \<Rightarrow> projection_request \<Rightarrow> response" where
  "project_modifications int_of_string stored_sources stored_modifications now rq =
     (case (case rq_start_year rq of None \<Rightarrow> Inr now | Some v \<Rightarrow> py_int int_of_string v) of
        Inl e \<Rightarrow> failure e
      | Inr start_year \<Rightarrow>
          (let requested_end_year = rq_end_year rq in
           if \<not> truthy_json (rq_source_id rq) then Failed 400
           else
             (let max_end_year = start_year + 50 in
              case (if truthy_json requested_end_year
                    then py_int int_of_string requested_end_year
                    else Inr max_end_year) of
                Inl e \<Rightarrow> failure e
              | Inr requested \<Rightarrow>
                  (let end_year = min requested max_end_year in
                   case py_int int_of_string (rq_source_id rq) of
                     Inl e \<Rightarrow> failure e
                   | Inr source_id \<Rightarrow>
                       (case find (\<lambda>s. s_id s = source_id) stored_sources of
                          None \<Rightarrow> Failed 404
                        | Some src \<Rightarrow>
                            (let modifications =
                                   sort_key (\<lambda>m. (m_start_year m, m_order m))
                                     (filter (\<lambda>m. m_id m \<in> set (rq_modification_ids rq))
                                        stored_modifications)
                             in case project_emissions src modifications start_year end_year of
                                  Inl e \<Rightarrow> failure e
                                | Inr projected_emissions \<Rightarrow>
                                    Ok \<lparr>rs_projections = projected_emissions,
                                        rs_start_year = start_year,
                                        rs_end_year = end_year,
                                        rs_max_allowed_end_year = max_end_year\<rparr>))))))"

section \<open>Report totals and the cached total\<close>

text \<open>
  The stored rows: reports with their cached total, and sources with the id of
  their report. \<^verbatim>\<open>Report.total_emissions(year)\<close> is a query over the sources of the
  report; without a year it weights each source by
  \<^verbatim>\<open>Least(lifetime, current_year - acquisition_year + 1)\<close>.
\<close>

record report =
  r_id :: int
  r_total_emissions_cache :: "rat option"

record store =
  st_reports :: "report list"
  st_sources :: "source list"

definition report_sources :: "store \<Rightarrow> int \<Rightarrow> source list" where
  "report_sources db rid = filter (\<lambda>s. s_report s = rid) (st_sources db)"

definition total_emissions :: "store \<Rightarrow> int \<Rightarrow> int \<Rightarrow> int option \<Rightarrow> rat" where
  "total_emissions db now rid year =
     (case year of
        None \<Rightarrow>
          sum_list (map (\<lambda>s. s_emission_factor s * s_value s * of_int (s_quantity s)
                              * of_int (min (s_lifetime s) (now - s_acquisition_year s + 1)))
                      (report_sources db rid))
      | Some y \<Rightarrow>
          sum_list (map (\<lambda>s. s_emission_factor s * s_value s * of_int (s_quantity s))
                      (filter (\<lambda>s. s_acquisition_year s \<le> y
                                    \<and> s_acquisition_year s > y - s_lifetime s)
                         (report_sources db rid))))"

text \<open>\<^verbatim>\<open>Report.update_total_emissions\<close> and \<^verbatim>\<open>Report.get_total_emissions\<close>.\<close>

definition update_total_emissions :: "store \<Rightarrow> int \<Rightarrow> int \<Rightarrow> store" where
  "update_total_emissions db now rid =
     db\<lparr>st_reports :=
          map (\<lambda>r. if r_id r = rid
                    then r\<lparr>r_total_emissions_cache := Some (total_emissions db now rid None)\<rparr>
                    else r)
            (st_reports db)\<rparr>"

definition cached_total :: "store \<Rightarrow> int \<Rightarrow> rat option" where
  "cached_total db rid =
     (case find (\<lambda>r. r_id r = rid) (st_reports db) of
        None \<Rightarrow> None
      | Some r \<Rightarrow> r_total_emissions_cache r)"

definition get_total_emissions :: "store \<Rightarrow> int \<Rightarrow> int \<Rightarrow> rat \<times> store" where
  "get_total_emissions db now rid =
     (case cached_total db rid of
        None \<Rightarrow> (total_emissions db now rid None, update_total_emissions db now rid)
      | Some c \<Rightarrow> (c, db))"

text \<open>
  \<^verbatim>\<open>Source.clean\<close>, \<^verbatim>\<open>Source.save\<close> and deletion, each followed by its signal
  handler of \<open>signals.py\<close>, which updates the cached total of \<^verbatim>\<open>instance.report\<close>.
  A saved row replaces the row of the same id, or is added.
\<close>

definition clean :: "source \<Rightarrow> error + unit" where
  "clean s =
     (if s_value s \<le> 0 then Inl ValidationError
      else if s_quantity s \<le> 0 then Inl ValidationError
      else if truthy (s_year s)
              \<and> (case s_year s of
                    None \<Rightarrow> False
                  | Some p \<Rightarrow> p < s_acquisition_year s
                              \<or> p \<ge> s_acquisition_year s + s_lifetime s)
           then Inl ValidationError
      else Inr ())"

definition write_source :: "source \<Rightarrow> source list \<Rightarrow> source list" where
  "write_source s rows =
     (if s_id s \<in> s_id ` set rows then map (\<lambda>x. if s_id x = s_id s then s else x) rows
      else rows @ [s])"

definition save_source :: "store \<Rightarrow> int \<Rightarrow> source \<Rightarrow> error + store" where
  "save_source db now s =
     (case clean s of
        Inl e \<Rightarrow> Inl e
      | Inr _ \<Rightarrow>
          Inr (update_total_emissions
                 (db\<lparr>st_sources := write_source s (st_sources db)\<rparr>) now (s_report s)))"

definition delete_source :: "store \<Rightarrow> int \<Rightarrow> source \<Rightarrow> store" where
  "delete_source db now s =
     update_total_emissions
       (db\<lparr>st_sources := filter (\<lambda>x. s_id x \<noteq> s_id s) (st_sources db)\<rparr>) now (s_report s)"

section \<open>The running value of a projection, as specified\<close>

text \<open>
  The specification's account of the projection, for comparison with
  \<open>project_emissions\<close>. A modification whose window holds the year overwrites the
  running value with the interpolated usage value when it is progressive, and
  multiplies it by its value when it is not and the year is its start year. The
  running value of a year is the one of the year before, changed by the
  modifications in order when the year is inside the lifetime; before the first
  projected year it is the source's value. The emission of a year inside the
  lifetime is emission factor times running value times quantity over lifetime.
\<close>

definition spec_apply_modification :: "source \<Rightarrow> int \<Rightarrow> modification \<Rightarrow> rat \<Rightarrow> rat" where
  "spec_apply_modification src y m v =
     (if m_start_year m \<le> y \<and> (case m_end_year m of None \<Rightarrow> True | Some e \<Rightarrow> y \<le> e) then
        (if m_is_progressive m then
           (case (m_end_year m, m_target_value m) of
              (Some e, Some t) \<Rightarrow>
                s_value src + (t - s_value src)
                  * (of_int (min (y - m_start_year m + 1) (e - m_start_year m + 1))
                       / of_int (e - m_start_year m + 1))
            | _ \<Rightarrow> v)
         else if y = m_start_year m then v * m_value m
         else v)
      else v)"

function spec_modified_value :: "source \<Rightarrow> modification list \<Rightarrow> int \<Rightarrow> int \<Rightarrow> rat" where
  "spec_modified_value src mods s y =
     (if y < s then s_value src
      else if s_acquisition_year src \<le> y \<and> y < s_acquisition_year src + s_lifetime src
      then foldl (\<lambda>v m. spec_apply_modification src y m v)
             (spec_modified_value src mods s (y - 1)) mods
      else spec_modified_value src mods s (y - 1))"
  by pat_completeness auto
termination
  by (relation "measure (\<lambda>(src, mods, s, y). nat (y + 1 - s))") auto

declare spec_modified_value.simps [simp del]

definition spec_emission :: "source \<Rightarrow> modification list \<Rightarrow> int \<Rightarrow> int \<Rightarrow> rat" where
  "spec_emission src mods s y =
     (if s_acquisition_year src \<le> y \<and> y < s_acquisition_year src + s_lifetime src
      then s_emission_factor src * spec_modified_value src mods s y * of_int (s_quantity src)
             / of_int (s_lifetime src)
      else 0)"

text \<open>
  The invariant of the data model on progressive modifications: the end year and
  the target value are present.
\<close>

definition well_formed :: "modification \<Rightarrow> bool" where
  "well_formed m =
     (m_is_progressive m \<longrightarrow> m_end_year m \<noteq> None \<and> m_target_value m \<noteq> None)"

section \<open>Scenarios\<close>

text \<open>
  The source and the modification of the projection tests: emission factor 0.1,
  value 1000, one item, lifetime 5, acquired in 2023; a non-progressive VALUE
  modification of 0.9 starting in 2024.
\<close>

definition scenario_source :: source where
  "scenario_source = \<lparr>s_id = 1, s_report = 1, s_emission_factor = 1 / 10, s_value = 1000,
       s_quantity = 1, s_lifetime = 5, s_acquisition_year = 2023, s_year = None\<rparr>"

definition scenario_modification :: modification where
  "scenario_modification = \<lparr>m_id = 1, m_source = scenario_source,
     m_modification_type = ''VALUE'', m_value = 9 / 10,
     m_order = 1, m_start_year = 2024, m_end_year = None, m_is_progressive = False,
     m_target_value = None, m_calculation_year = 2024\<rparr>"

text \<open>The progressive modification of the tests: from 2024 to 2026 towards 2000.\<close>

definition progressive_modification :: modification where
  "progressive_modification = scenario_modification\<lparr>m_value := 1, m_is_progressive := True,
     m_end_year := Some 2026, m_target_value := Some 2000\<rparr>"

text \<open>The same source with its data pinned to the year 2023.\<close>

definition pinned_source :: source where
  "pinned_source = scenario_source\<lparr>s_year := Some 2023\<rparr>"



text \<open>
  The request of the projection test, which asks for an end year beyond the cap,
  and a request whose end year is the number 0.
\<close>

definition capped_request :: projection_request where
  "capped_request = \<lparr>rq_source_id = JInt 1, rq_modification_ids = [1],
      rq_start_year = Some (JInt 2023), rq_end_year = JInt 2075\<rparr>"

definition zero_end_year_request :: projection_request where
  "zero_end_year_request = \<lparr>rq_source_id = JInt 1, rq_modification_ids = [],
      rq_start_year = Some (JInt 2023), rq_end_year = JInt 0\<rparr>"

text \<open>
  Two reports in 2023 with consistent cached totals: the first holds the source
  of the tests, the second holds nothing.
\<close>

definition two_reports :: store where
  "two_reports = \<lparr>st_reports = [\<lparr>r_id = 1, r_total_emissions_cache = Some 100\<rparr>,
                                 \<lparr>r_id = 2, r_total_emissions_cache = Some 0\<rparr>],
                   st_sources = [scenario_source]\<rparr>"

section \<open>Emission of a source in one year\<close>

text \<open>
  \<open>calculate_emission_for_year\<close> by cases: 0 when the year field holds a non-zero
  year other than the requested one, otherwise 0 outside the lifetime window,
  otherwise emission factor times value times quantity.
\<close>

lemma emission_for_year_cases:
  "calculate_emission_for_year s y =
     (if (\<exists>p. s_year s = Some p \<and> p \<noteq> 0 \<and> p \<noteq> y) then 0
      else if y < s_acquisition_year s \<or> y \<ge> s_acquisition_year s + s_lifetime s then 0
      else s_emission_factor s * s_value s * of_int (s_quantity s))"
  by (auto simp: calculate_emission_for_year_def truthy_def annual_emission_def
      split: option.splits)

text \<open>
  C6, evaluated on a source whose year field is 0, acquired in year 0 with a
  lifetime of 5, for the year 1. The year is set and differs from 1, and the
  result is the annual emission 100, not 0: the truth test of the year field
  takes the year 0 for an unset one.
\<close>

theorem emission_for_year_zero_pin:
  "s_year (scenario_source\<lparr>s_acquisition_year := 0, s_year := Some 0\<rparr>) = Some 0
   \<and> (1::int) \<noteq> 0
   \<and> clean (scenario_source\<lparr>s_acquisition_year := 0, s_year := Some 0\<rparr>) = Inr ()
   \<and> calculate_emission_for_year
       (scenario_source\<lparr>s_acquisition_year := 0, s_year := Some 0\<rparr>) 1 = 100"
  by (simp add: scenario_source_def calculate_emission_for_year_def truthy_def
      annual_emission_def clean_def)

section \<open>Progressive interpolation\<close>

lemma progress_in_window:
  "s \<le> y \<Longrightarrow> y \<le> e \<Longrightarrow>
   progress s (Some e) y = Inr (of_int (y - s + 1) / of_int (e - s + 1))"
  by (simp add: progress_def dec_div_def Let_def min_def)

text \<open>
  C2 (as amended). For a progressive modification over the window from \<open>s\<close> to \<open>e\<close>
  and a year \<open>y\<close> in it, the progress is \<open>(y - s + 1) / (e - s + 1)\<close> and the
  interpolated value is \<open>value + (target - value) * progress\<close>, in the projection
  loop as in \<open>calculate_modified_emission\<close>. In the start year the progress is
  \<open>1 / (e - s + 1)\<close>, not 0; in the end year it is 1 and the value is the target.
\<close>

theorem progressive_interpolation:
  assumes "m_is_progressive m" and "m_start_year m \<le> y" and "m_end_year m = Some e"
    and "y \<le> e" and "m_target_value m = Some t" and "s_value src \<noteq> 0"
    and "p = of_int (y - m_start_year m + 1) / of_int (e - m_start_year m + 1)"
  shows "project_emissions_mods src y [m] mv = Inr (current_value (s_value src) t p)
    \<and> (m_modification_type m = ''VALUE'' \<and> m_source m = src \<longrightarrow>
         calculate_modified_emission (m\<lparr>m_calculation_year := y\<rparr>) (Some b)
           = Inr (b * (current_value (s_value src) t p / s_value src)))
    \<and> current_value (s_value src) t p = s_value src + (t - s_value src) * p
    \<and> (y = m_start_year m \<longrightarrow> p = 1 / of_int (e - m_start_year m + 1))
    \<and> (y = e \<longrightarrow> p = 1 \<and> current_value (s_value src) t p = t)"
  using assms
  by (auto simp: progress_in_window in_window_def calculate_modified_emission_def
      dec_div_def current_value_def)

text \<open>The progressive modification of the tests in 2025: two thirds of the way.\<close>

theorem progressive_interpolation_witness:
  "project_emissions_mods scenario_source 2025 [progressive_modification] 1000
     = Inr (5000 / 3)
   \<and> calculate_modified_emission (progressive_modification\<lparr>m_calculation_year := 2025\<rparr>)
        (Some 100) = Inr (500 / 3)"
proof -
  have s: "s_value scenario_source = 1000"
    by (simp add: scenario_source_def)
  have "current_value 1000 2000 (2 / 3) = 5000 / 3"
    by (simp add: current_value_def)
  then show ?thesis
    using progressive_interpolation [of progressive_modification 2025 2026 2000
        scenario_source "2 / 3" 1000 100]
    by (simp add: s progressive_modification_def scenario_modification_def)
qed

text \<open>
  C2, the claim as stated fails in the start year: with the window 2024 to 2026,
  a value of 1000 and a target of 2000, the value interpolated for 2024 is
  4000/3, not the source's 1000.
\<close>

theorem progressive_start_year_counterexample:
  "project_emissions_mods scenario_source 2024 [progressive_modification] 1000
     = Inr (4000 / 3)
   \<and> m_start_year progressive_modification = 2024
   \<and> s_value scenario_source = 1000 \<and> (4000 / 3 :: rat) \<noteq> 1000"
  by (simp add: scenario_source_def progressive_modification_def scenario_modification_def
      in_window_def progress_def dec_div_def current_value_def)

section \<open>The window of a modification in the pipeline\<close>













section \<open>The cap of the projection horizon\<close>

lemma project_emissions_years_keys:
  "project_emissions_years src mods ys mv acc = Inr em \<Longrightarrow> map fst em = map fst acc @ ys"
  by (induction ys arbitrary: mv acc) (auto split: if_splits sum.splits)

lemma project_emissions_keys:
  "project_emissions src mods s e = Inr em \<Longrightarrow> map fst em = [s..e]"
  using project_emissions_years_keys [of src mods "[s..e]" "s_value src" "[]" em]
  by (simp add: project_emissions_def)

text \<open>
  A successful response reports the start year plus 50 as the maximal end year
  and an end year that is at most that; the years projected are those from the
  start year to the reported end year. A requested end year that is a non-zero
  number is capped by the minimum; one without a truth value, which includes
  the number 0, is replaced by the maximal end year.
\<close>

lemma project_modifications_cap:
  assumes "project_modifications int_of_string stored_sources stored_modifications now rq
             = Ok r"
  shows "rs_max_allowed_end_year r = rs_start_year r + 50
    \<and> rs_end_year r \<le> rs_start_year r + 50
    \<and> map fst (rs_projections r) = [rs_start_year r..rs_end_year r]
    \<and> (\<forall>q. rq_end_year rq = JInt q \<and> q \<noteq> 0 \<longrightarrow>
          rs_end_year r = min q (rs_start_year r + 50))
    \<and> (\<not> truthy_json (rq_end_year rq) \<longrightarrow> rs_end_year r = rs_start_year r + 50)"
  using assms
  by (auto simp: project_modifications_def Let_def failure_def
      dest: project_emissions_keys split: if_splits option.splits sum.splits)

lemma capped_request_response:
  "project_modifications int_of_string [scenario_source] [scenario_modification] 2024
      capped_request
     = Ok \<lparr>rs_projections =
             (2023, 20) # map (\<lambda>y. (y, 18)) [2024..2027] @ map (\<lambda>y. (y, 0)) [2028..2073],
           rs_start_year = 2023, rs_end_year = 2073, rs_max_allowed_end_year = 2073\<rparr>"
  by code_simp

text \<open>
  The end year as the string of the digit 0 has a truth value and goes through
  the minimum: nothing is projected.
\<close>

lemma string_zero_end_year:
  assumes "int_of_string ''0'' = Some 0"
  shows "project_modifications int_of_string [scenario_source] [] 2024
      (zero_end_year_request\<lparr>rq_end_year := JStr ''0''\<rparr>)
     = Ok \<lparr>rs_projections = [], rs_start_year = 2023, rs_end_year = 0,
           rs_max_allowed_end_year = 2073\<rparr>"
  using assms
  by (simp add: project_modifications_def zero_end_year_request_def scenario_source_def
      project_emissions_def)

text \<open>
  C7, evaluated on a request from 2023 whose end year is the number 0. The
  minimum of 0 and 2023 plus 50 is 0; the response reports the end year 2073 and
  the projection runs over the 51 years from 2023 to 2073: the truth test of the
  requested end year takes the number 0 for a missing one.
\<close>

theorem requested_end_year_zero:
  "project_modifications int_of_string [scenario_source] [] 2024 zero_end_year_request
     = Ok \<lparr>rs_projections =
             map (\<lambda>y. (y, 20)) [2023..2027] @ map (\<lambda>y. (y, 0)) [2028..2073],
           rs_start_year = 2023, rs_end_year = 2073, rs_max_allowed_end_year = 2073\<rparr>
   \<and> rq_end_year zero_end_year_request = JInt 0
   \<and> min (0::int) (2023 + 50) = 0"
  by code_simp

section \<open>The total of a report in a year\<close>

text \<open>
  When no source of the report is pinned to another year, the total of the
  report in a year is the sum of the emissions of its sources in that year.
\<close>

lemma total_emissions_unpinned:
  assumes "\<forall>s\<in>set (report_sources db rid). \<not> (truthy (s_year s) \<and> s_year s \<noteq> Some y)"
  shows "total_emissions db now rid (Some y)
     = sum_list (map (\<lambda>s. calculate_emission_for_year s y) (report_sources db rid))"
proof -
  have "\<forall>s\<in>set xs. \<not> (truthy (s_year s) \<and> s_year s \<noteq> Some y) \<Longrightarrow>
      sum_list (map (\<lambda>s. s_emission_factor s * s_value s * of_int (s_quantity s))
         (filter (\<lambda>s. s_acquisition_year s \<le> y \<and> s_acquisition_year s > y - s_lifetime s) xs))
      = sum_list (map (\<lambda>s. calculate_emission_for_year s y) xs)" for xs
    by (induction xs) (auto simp: calculate_emission_for_year_def annual_emission_def)
  with assms show ?thesis
    by (simp add: total_emissions_def)
qed

text \<open>
  C8, evaluated on a report whose only source is pinned to 2023. The emission of
  the source for 2024 is 0, and \<open>total_emissions\<close> of the report for 2024 is 100:
  the query reads the lifetime window and not the pin.
\<close>

theorem total_emissions_ignores_year_pin:
  "total_emissions \<lparr>st_reports = [\<lparr>r_id = 1, r_total_emissions_cache = None\<rparr>],
                     st_sources = [pinned_source]\<rparr> now 1 (Some 2024) = 100
   \<and> sum_list (map (\<lambda>s. calculate_emission_for_year s 2024)
        (report_sources \<lparr>st_reports = [\<lparr>r_id = 1, r_total_emissions_cache = None\<rparr>],
                         st_sources = [pinned_source]\<rparr> 1)) = 0"
  by (simp add: total_emissions_def report_sources_def pinned_source_def scenario_source_def
      calculate_emission_for_year_def truthy_def)

section \<open>Emission factor modifications in a projection\<close>

lemma project_emissions_mods_type:
  "project_emissions_mods src y (map (\<lambda>m. m\<lparr>m_modification_type := f m\<rparr>) ms) mv
     = project_emissions_mods src y ms mv"
  by (induction ms arbitrary: mv) (auto simp: in_window_def split: sum.splits option.splits)

lemma project_emissions_years_type:
  "project_emissions_years src (map (\<lambda>m. m\<lparr>m_modification_type := f m\<rparr>) ms) ys mv acc
     = project_emissions_years src ms ys mv acc"
  by (induction ys arbitrary: mv acc)
    (auto simp: project_emissions_mods_type split: sum.splits)

text \<open>
  C10. In \<open>project_emissions\<close> a non-progressive modification of type EF multiplies
  the running value by its value in its start year, when its window holds that
  year, and leaves it in every other year, with no division by the emission
  factor; it gives what the same modification of type VALUE gives, for one
  modification as for a whole list.
\<close>

theorem project_emissions_ef_as_value:
  assumes "\<not> m_is_progressive m" and "m_modification_type m = ''EF''"
  shows "project_emissions_mods src y [m] mv
           = Inr (if y = m_start_year m \<and> in_window m y then mv * m_value m else mv)
    \<and> project_emissions_mods src y [m\<lparr>m_modification_type := ''VALUE''\<rparr>] mv
           = project_emissions_mods src y [m] mv
    \<and> project_emissions src (map (\<lambda>x. x\<lparr>m_modification_type := ''VALUE''\<rparr>) ms) s e
           = project_emissions src ms s e"
  using assms project_emissions_mods_type [of src y "\<lambda>_. ''VALUE''" "[m]" mv]
  by (auto simp: project_emissions_def project_emissions_years_type)

text \<open>The modification of the tests as an EF modification: 1000 becomes 900 in 2024.\<close>

theorem project_emissions_ef_as_value_witness:
  "project_emissions scenario_source
      [scenario_modification\<lparr>m_modification_type := ''EF''\<rparr>] 2023 2028
     = Inr [(2023, 20), (2024, 18), (2025, 18), (2026, 18), (2027, 18), (2028, 0)]
   \<and> project_emissions_mods scenario_source 2024
        [scenario_modification\<lparr>m_modification_type := ''EF''\<rparr>] 1000 = Inr 900"
proof -
  have a: "\<not> m_is_progressive (scenario_modification\<lparr>m_modification_type := ''EF''\<rparr>)"
    by (simp add: scenario_modification_def)
  have b: "m_modification_type (scenario_modification\<lparr>m_modification_type := ''EF''\<rparr>) = ''EF''"
    by simp
  have c: "project_emissions scenario_source
      [scenario_modification\<lparr>m_modification_type := ''EF''\<rparr>] 2023 2028
     = Inr [(2023, 20), (2024, 18), (2025, 18), (2026, 18), (2027, 18), (2028, 0)]"
    by code_simp
  show ?thesis
    using project_emissions_ef_as_value [OF a b, of scenario_source 2024 1000] c
    by (simp add: scenario_modification_def in_window_def)
qed

section \<open>The projection and its running value\<close>

lemma project_emissions_mods_spec:
  "list_all well_formed mods \<Longrightarrow>
   project_emissions_mods src y mods v
     = Inr (foldl (\<lambda>v m. spec_apply_modification src y m v) v mods)"
proof (induction mods arbitrary: v)
  case Nil
  then show ?case by simp
next
  case (Cons m ms)
  then have wf: "well_formed m" and rest: "list_all well_formed ms"
    by simp_all
  show ?case
  proof (cases "in_window m y \<and> m_is_progressive m")
    case True
    then obtain e t where e: "m_end_year m = Some e" and t: "m_target_value m = Some t"
      using wf by (auto simp: well_formed_def)
    from True e have "m_start_year m \<le> y" "y \<le> e"
      by (simp_all add: in_window_def)
    then have "progress (m_start_year m) (Some e) y
        = Inr (of_int (min (y - m_start_year m + 1) (e - m_start_year m + 1))
                / of_int (e - m_start_year m + 1))"
      by (simp add: progress_def dec_div_def Let_def)
    with True e t Cons.IH [OF rest] show ?thesis
      by (simp add: spec_apply_modification_def in_window_def current_value_def)
  next
    case False
    with Cons.IH [OF rest] show ?thesis
      by (auto simp: spec_apply_modification_def in_window_def)
  qed
qed

lemma spec_modified_value_before:
  "y < s \<Longrightarrow> spec_modified_value src mods s y = s_value src"
  by (subst spec_modified_value.simps) simp

lemma spec_modified_value_step:
  "\<not> y < s \<Longrightarrow> spec_modified_value src mods s y =
     (if s_acquisition_year src \<le> y \<and> y < s_acquisition_year src + s_lifetime src
      then foldl (\<lambda>v m. spec_apply_modification src y m v)
             (spec_modified_value src mods s (y - 1)) mods
      else spec_modified_value src mods s (y - 1))"
  by (subst spec_modified_value.simps) simp

text \<open>
  The invariant of the loop over the years: the running value carried into a
  year is the specified one of the year before.
\<close>

lemma project_emissions_years_spec:
  assumes "list_all well_formed mods"
  shows "s \<le> a \<Longrightarrow> mv = spec_modified_value src mods s (a - 1) \<Longrightarrow>
     project_emissions_years src mods [a..e] mv acc
       = Inr (acc @ map (\<lambda>y. (y, spec_emission src mods s y)) [a..e])"
proof (induction "nat (e + 1 - a)" arbitrary: a mv acc)
  case 0
  then have "[a..e] = []" by simp
  then show ?case by simp
next
  case (Suc n)
  then have le: "a \<le> e" by simp
  then have unfold: "[a..e] = a # [a + 1..e]"
    by (simp add: upto_rec1)
  have n: "n = nat (e + 1 - (a + 1))"
    using Suc.hyps(2) by simp
  have sa: "s \<le> a + 1" using Suc.prems(1) by simp
  have notlt: "\<not> a < s" using Suc.prems(1) by simp
  show ?case
  proof (cases "s_acquisition_year src \<le> a \<and> a < s_acquisition_year src + s_lifetime src")
    case False
    then have v: "spec_modified_value src mods s a = mv"
      using Suc.prems(2) by (auto simp: spec_modified_value_step [OF notlt])
    have em: "spec_emission src mods s a = 0"
      using False by (auto simp: spec_emission_def)
    have "project_emissions_years src mods [a + 1..e] mv (acc @ [(a, 0)])
        = Inr ((acc @ [(a, 0)]) @ map (\<lambda>y. (y, spec_emission src mods s y)) [a + 1..e])"
      by (rule Suc.hyps(1) [OF n sa]) (simp add: v)
    with False show ?thesis
      by (auto simp: unfold em)
  next
    case True
    let ?mv = "foldl (\<lambda>v m. spec_apply_modification src a m v) mv mods"
    have v: "spec_modified_value src mods s a = ?mv"
      using True Suc.prems(2) by (simp add: spec_modified_value_step [OF notlt])
    have life: "s_lifetime src \<noteq> 0" using True by auto
    let ?em = "s_emission_factor src * ?mv * of_int (s_quantity src) / of_int (s_lifetime src)"
    have em: "spec_emission src mods s a = ?em"
      using True by (simp add: spec_emission_def v)
    have "project_emissions_years src mods [a + 1..e] ?mv (acc @ [(a, ?em)])
        = Inr ((acc @ [(a, ?em)]) @ map (\<lambda>y. (y, spec_emission src mods s y)) [a + 1..e])"
      by (rule Suc.hyps(1) [OF n sa]) (simp add: v)
    with True life show ?thesis
      by (simp add: unfold em project_emissions_mods_spec [OF assms] dec_div_def)
  qed
qed

lemma project_emissions_spec:
  assumes "list_all well_formed mods"
  shows "project_emissions src mods s e
           = Inr (map (\<lambda>y. (y, spec_emission src mods s y)) [s..e])"
proof -
  have "s_value src = spec_modified_value src mods s (s - 1)"
    by (simp add: spec_modified_value_before)
  then show ?thesis
    using project_emissions_years_spec [OF assms, of s s "s_value src" src e "[]"]
    by (simp add: project_emissions_def)
qed

text \<open>
  One non-progressive modification: the running value is the source's value
  times the modification's value from the start year of the modification on,
  when that year is projected, inside the lifetime and inside the window, and the
  source's value in every other case.
\<close>

lemma spec_single_nonprogressive:
  assumes "\<not> m_is_progressive m"
  shows "spec_modified_value src [m] s y =
     (if s \<le> m_start_year m \<and> m_start_year m \<le> y \<and> active src (m_start_year m)
         \<and> (case m_end_year m of None \<Rightarrow> True | Some e \<Rightarrow> m_start_year m \<le> e)
      then s_value src * m_value m else s_value src)"
proof (induction "nat (y + 1 - s)" arbitrary: y)
  case 0
  then have "y < s" by simp
  then show ?case by (simp add: spec_modified_value_before)
next
  case (Suc n)
  then have notlt: "\<not> y < s" and n: "n = nat (y - 1 + 1 - s)"
    by simp_all
  show ?case
    using assms notlt Suc.hyps(1) [OF n]
    by (auto simp: spec_modified_value_step [OF notlt] spec_apply_modification_def active_def
        split: option.splits)
qed

lemma scenario_projection:
  "project_emissions scenario_source [scenario_modification] 2023 2028
     = Inr [(2023, 20), (2024, 18), (2025, 18), (2026, 18), (2027, 18), (2028, 0)]"
  by code_simp

text \<open>
  C3. For every source and every list of modifications whose progressive members
  have an end year and a target value, \<open>project_emissions\<close> returns, for each
  year from the start year to the end year, 0 outside the lifetime and emission
  factor times running value times quantity over lifetime inside it, with the
  running value of the specification: progressive modifications overwrite it
  with the interpolated usage value, non-progressive ones multiply it once, in
  the year equal to their start year, and the product is carried forward. For
  the source and the modification of the scenario, the projection of 2023 to
  2028 is 20, 18, 18, 18, 18, 0.
\<close>

theorem project_emissions_running_value:
  "(list_all well_formed mods \<longrightarrow>
      project_emissions src mods s e
        = Inr (map (\<lambda>y. (y, spec_emission src mods s y)) [s..e]))
   \<and> (\<not> m_is_progressive m \<longrightarrow>
        spec_modified_value src [m] s y =
          (if s \<le> m_start_year m \<and> m_start_year m \<le> y \<and> active src (m_start_year m)
              \<and> (case m_end_year m of None \<Rightarrow> True | Some e \<Rightarrow> m_start_year m \<le> e)
           then s_value src * m_value m else s_value src))
   \<and> project_emissions scenario_source [scenario_modification] 2023 2028
        = Inr [(2023, 20), (2024, 18), (2025, 18), (2026, 18), (2027, 18), (2028, 0)]"
  using project_emissions_spec spec_single_nonprogressive scenario_projection
  by blast

lemma progressive_scenario_spec:
  "map (\<lambda>y. (y, spec_emission scenario_source [progressive_modification] 2023 y)) [2023..2027]
     = [(2023, 20), (2024, 80 / 3), (2025, 100 / 3), (2026, 40), (2027, 40)]"
  by code_simp

text \<open>
  The progressive modification of the tests: 20 in 2023, then 80/3, 100/3 and 40,
  and 40 again in 2027, after the window.
\<close>

theorem project_emissions_running_value_witness:
  "project_emissions scenario_source [progressive_modification] 2023 2027
     = Inr [(2023, 20), (2024, 80 / 3), (2025, 100 / 3), (2026, 40), (2027, 40)]"
proof -
  have "list_all well_formed [progressive_modification]"
    by (simp add: well_formed_def progressive_modification_def)
  with project_emissions_running_value [where mods = "[progressive_modification]"
      and src = scenario_source and s = 2023 and e = 2027]
  have "project_emissions scenario_source [progressive_modification] 2023 2027
      = Inr (map (\<lambda>y. (y, spec_emission scenario_source [progressive_modification] 2023 y))
               [2023..2027])"
    by blast
  then show ?thesis
    by (simp only: progressive_scenario_spec)
qed

section \<open>Years outside the active window in a projection\<close>

lemma map_of_graph:
  "y \<in> set xs \<Longrightarrow> map_of (map (\<lambda>y. (y, f y)) xs) y = Some (f y)"
  by (induction xs) auto

text \<open>
  A projected year outside the lifetime window has the emission 0, whatever the
  modifications are.
\<close>

lemma project_outside_lifetime:
  assumes "list_all well_formed mods" and "s \<le> y" and "y \<le> e"
    and "y < s_acquisition_year src \<or> y \<ge> s_acquisition_year src + s_lifetime src"
  shows "\<exists>em. project_emissions src mods s e = Inr em \<and> map_of em y = Some 0"
proof -
  have "y \<in> set [s..e]" using assms(2,3) by simp
  then have "map_of (map (\<lambda>y. (y, spec_emission src mods s y)) [s..e]) y
      = Some (spec_emission src mods s y)"
    by (rule map_of_graph)
  moreover have "spec_emission src mods s y = 0"
    using assms(4) by (auto simp: spec_emission_def)
  ultimately show ?thesis
    by (simp add: project_emissions_spec [OF assms(1)])
qed

text \<open>
  C5, evaluated on a pinned source. The source is pinned to 2023, so that its
  emission for 2024 is 0; the projection of 2023 to 2024 without modifications
  gives 20 for 2024 as for 2023: \<open>project_emissions\<close> does not read the pin.
\<close>

theorem project_ignores_year_pin:
  "s_year pinned_source = Some 2023
   \<and> calculate_emission_for_year pinned_source 2024 = 0
   \<and> project_emissions pinned_source [] 2023 2024 = Inr [(2023, 20), (2024, 20)]"
  by (simp add: pinned_source_def scenario_source_def calculate_emission_for_year_def
      truthy_def project_emissions_def upto_rec1 dec_div_def)

section \<open>The cached total of a report\<close>

lemma find_updated_report:
  "rid \<in> r_id ` set rs \<Longrightarrow>
   find (\<lambda>r. r_id r = rid)
     (map (\<lambda>r. if r_id r = rid then r\<lparr>r_total_emissions_cache := Some c\<rparr> else r) rs)
     = Some ((the (find (\<lambda>r. r_id r = rid) rs))\<lparr>r_total_emissions_cache := Some c\<rparr>)"
  by (induction rs) auto

lemma cached_total_update:
  "rid \<in> r_id ` set (st_reports db) \<Longrightarrow>
   cached_total (update_total_emissions db now rid) rid
     = Some (total_emissions db now rid None)"
  by (simp add: cached_total_def update_total_emissions_def find_updated_report)

lemma report_sources_update:
  "report_sources (update_total_emissions db now rid) rid' = report_sources db rid'"
  by (simp add: update_total_emissions_def report_sources_def)

lemma total_emissions_update:
  "total_emissions (update_total_emissions db now rid) now' rid' y
     = total_emissions db now' rid' y"
  by (cases y) (simp_all add: total_emissions_def report_sources_update)

text \<open>
  After a save or a deletion, the cached total of the report the instance refers
  to is the total of that report computed on the new rows.
\<close>

lemma save_source_refreshes:
  "save_source db now s = Inr db' \<Longrightarrow> s_report s \<in> r_id ` set (st_reports db) \<Longrightarrow>
   cached_total db' (s_report s) = Some (total_emissions db' now (s_report s) None)"
  by (auto simp: save_source_def cached_total_update total_emissions_update split: sum.splits)

lemma delete_source_refreshes:
  "s_report s \<in> r_id ` set (st_reports db) \<Longrightarrow>
   cached_total (delete_source db now s) (s_report s)
     = Some (total_emissions (delete_source db now s) now (s_report s) None)"
  by (simp add: delete_source_def cached_total_update total_emissions_update)

text \<open>
  C9, evaluated on an update that moves a source to another report. Both cached
  totals are consistent before. The source of the first report is saved with the
  second report as its report: the handler recomputes the cached total of the
  second report only, and the first report keeps the cached total 100 while its
  total, computed on the new rows, is 0; a read of the first report returns 100.
\<close>

theorem moved_source_stale_cache:
  "cached_total two_reports 1 = Some (total_emissions two_reports 2023 1 None)
   \<and> cached_total two_reports 2 = Some (total_emissions two_reports 2023 2 None)
   \<and> save_source two_reports 2023 (scenario_source\<lparr>s_report := 2\<rparr>)
       = Inr \<lparr>st_reports = [\<lparr>r_id = 1, r_total_emissions_cache = Some 100\<rparr>,
                             \<lparr>r_id = 2, r_total_emissions_cache = Some 100\<rparr>],
               st_sources = [scenario_source\<lparr>s_report := 2\<rparr>]\<rparr>
   \<and> total_emissions \<lparr>st_reports = [\<lparr>r_id = 1, r_total_emissions_cache = Some 100\<rparr>,
                             \<lparr>r_id = 2, r_total_emissions_cache = Some 100\<rparr>],
               st_sources = [scenario_source\<lparr>s_report := 2\<rparr>]\<rparr> 2023 1 None = 0
   \<and> fst (get_total_emissions
             \<lparr>st_reports = [\<lparr>r_id = 1, r_total_emissions_cache = Some 100\<rparr>,
                             \<lparr>r_id = 2, r_total_emissions_cache = Some 100\<rparr>],
               st_sources = [scenario_source\<lparr>s_report := 2\<rparr>]\<rparr> 2023 1) = 100"
  by (simp add: two_reports_def scenario_source_def cached_total_def total_emissions_def
      report_sources_def save_source_def clean_def truthy_def write_source_def
      update_total_emissions_def get_total_emissions_def)

end
